theory Spec2Isabelle
  imports Complex_Main
begin

section \<open>JavaScript numbers\<close>

text \<open>
  The program computes with JavaScript numbers. A finite number is modelled by the
  rational it denotes (every finite double is a rational); the three special values are
  constructors of their own, because the code tests for them (\<open>isNaN\<close>, \<open><= 0\<close>,
  truthiness). Rounding and overflow of doubles and the sign of zero are not modelled:
  finite arithmetic is exact and a zero divisor counts as \<open>+0\<close>.
\<close>

datatype jsnum = NaN | PInf | NInf | Fin rat

definition isNaN :: "jsnum \<Rightarrow> bool" where
  "isNaN x = (x = NaN)"

fun jsadd :: "jsnum \<Rightarrow> jsnum \<Rightarrow> jsnum" where
  "jsadd NaN _ = NaN"
| "jsadd _ NaN = NaN"
| "jsadd PInf NInf = NaN"
| "jsadd NInf PInf = NaN"
| "jsadd PInf _ = PInf"
| "jsadd _ PInf = PInf"
| "jsadd NInf _ = NInf"
| "jsadd _ NInf = NInf"
| "jsadd (Fin a) (Fin b) = Fin (a + b)"

fun jsneg :: "jsnum \<Rightarrow> jsnum" where
  "jsneg NaN = NaN"
| "jsneg PInf = NInf"
| "jsneg NInf = PInf"
| "jsneg (Fin a) = Fin (- a)"

definition jssub :: "jsnum \<Rightarrow> jsnum \<Rightarrow> jsnum" where
  "jssub x y = jsadd x (jsneg y)"

text \<open>The sign of a number that is not NaN: \<open>-1\<close>, \<open>0\<close> or \<open>1\<close>.\<close>

fun jssgn :: "jsnum \<Rightarrow> rat" where
  "jssgn NaN = 0"
| "jssgn PInf = 1"
| "jssgn NInf = - 1"
| "jssgn (Fin a) = sgn a"

definition inf_of_sign :: "rat \<Rightarrow> jsnum" where
  "inf_of_sign s = (if s = 0 then NaN else if 0 < s then PInf else NInf)"

fun jsmul :: "jsnum \<Rightarrow> jsnum \<Rightarrow> jsnum" where
  "jsmul NaN _ = NaN"
| "jsmul _ NaN = NaN"
| "jsmul (Fin a) (Fin b) = Fin (a * b)"
| "jsmul x y = inf_of_sign (jssgn x * jssgn y)"

fun jsdiv :: "jsnum \<Rightarrow> jsnum \<Rightarrow> jsnum" where
  "jsdiv NaN _ = NaN"
| "jsdiv _ NaN = NaN"
| "jsdiv PInf (Fin b) = (if 0 \<le> b then PInf else NInf)"
| "jsdiv NInf (Fin b) = (if 0 \<le> b then NInf else PInf)"
| "jsdiv (Fin a) (Fin b) = (if b = 0 then inf_of_sign (sgn a) else Fin (a / b))"
| "jsdiv (Fin a) _ = Fin 0"
| "jsdiv _ _ = NaN"

text \<open>The comparisons \<open><=\<close> and \<open>>\<close>: false as soon as one side is NaN.\<close>

fun js_le :: "jsnum \<Rightarrow> jsnum \<Rightarrow> bool" where
  "js_le NaN _ = False"
| "js_le _ NaN = False"
| "js_le NInf _ = True"
| "js_le _ PInf = True"
| "js_le PInf _ = False"
| "js_le _ NInf = False"
| "js_le (Fin a) (Fin b) = (a \<le> b)"

fun js_gt :: "jsnum \<Rightarrow> jsnum \<Rightarrow> bool" where
  "js_gt NaN _ = False"
| "js_gt _ NaN = False"
| "js_gt NInf _ = False"
| "js_gt _ PInf = False"
| "js_gt PInf _ = True"
| "js_gt _ NInf = True"
| "js_gt (Fin a) (Fin b) = (a > b)"

text \<open>Truthiness of a number (\<open>x || 0\<close>): NaN and zero are falsy.\<close>

definition js_truthy :: "jsnum \<Rightarrow> bool" where
  "js_truthy x = (x \<noteq> NaN \<and> x \<noteq> Fin 0)"

definition js_or :: "jsnum \<Rightarrow> jsnum \<Rightarrow> jsnum" where
  "js_or x y = (if js_truthy x then x else y)"


section \<open>JavaScript strings\<close>

text \<open>
  Strings are lists of code units, here restricted to the 8-bit range of \<open>char\<close>.
  \<open>trim\<close>, \<open>toLowerCase\<close> and \<open>parseFloat\<close> are built into the language; they are
  written out after its definition, so that the handlers below can be run on concrete
  inputs. The white space of the 8-bit range is TAB, LF, VT, FF, CR, SP and NBSP.
\<close>

definition isWhiteSpace :: "char \<Rightarrow> bool" where
  "isWhiteSpace c = (of_char c \<in> {9, 10, 11, 12, 13, 32, 160 :: nat})"

definition trimStart :: "string \<Rightarrow> string" where
  "trimStart s = dropWhile isWhiteSpace s"

definition trimEnd :: "string \<Rightarrow> string" where
  "trimEnd s = rev (dropWhile isWhiteSpace (rev s))"

definition trim :: "string \<Rightarrow> string" where
  "trim s = trimEnd (trimStart s)"

text \<open>
  \<open>toLowerCase\<close> on the 8-bit range: the ASCII capitals and the Latin-1 capitals
  (0xC0 to 0xDE without the multiplication sign 0xD7) move up by 32.
\<close>

definition lowerChar :: "char \<Rightarrow> char" where
  "lowerChar c =
     (let n = (of_char c :: nat)
      in if (65 \<le> n \<and> n \<le> 90) \<or> (192 \<le> n \<and> n \<le> 222 \<and> n \<noteq> 215)
         then char_of (n + 32) else c)"

definition toLowerCase :: "string \<Rightarrow> string" where
  "toLowerCase s = map lowerChar s"

subsection \<open>parseFloat\<close>

text \<open>
  \<open>parseFloat\<close> skips leading white space and reads the longest prefix that is a
  decimal literal: an optional sign, then \<open>Infinity\<close>, or digits with an optional
  fraction and an optional exponent. Without such a prefix the result is NaN. What
  follows the prefix is ignored.
\<close>

definition isDigit :: "char \<Rightarrow> bool" where
  "isDigit c = (48 \<le> (of_char c :: nat) \<and> (of_char c :: nat) \<le> 57)"

definition digitsValue :: "string \<Rightarrow> nat" where
  "digitsValue ds = foldl (\<lambda>acc c. acc * 10 + (of_char c - 48)) 0 ds"

definition splitSign :: "string \<Rightarrow> bool \<times> string" where
  "splitSign s =
     (case s of
        c # r \<Rightarrow> if c = CHR ''-'' then (True, r) else if c = CHR ''+'' then (False, r) else (False, s)
      | [] \<Rightarrow> (False, s))"

definition exponentPart :: "string \<Rightarrow> int" where
  "exponentPart s =
     (case s of
        c # r \<Rightarrow>
          if c = CHR ''e'' \<or> c = CHR ''E'' then
            (let (neg, r') = splitSign r; ds = takeWhile isDigit r'
             in if ds = [] then 0
                else if neg then - int (digitsValue ds) else int (digitsValue ds))
          else 0
      | [] \<Rightarrow> 0)"

definition scale10 :: "rat \<Rightarrow> int \<Rightarrow> rat" where
  "scale10 x e = (if 0 \<le> e then x * 10 ^ nat e else x / 10 ^ nat (- e))"

definition parseFloat :: "string \<Rightarrow> jsnum" where
  "parseFloat s =
     (let (neg, r) = splitSign (trimStart s)
      in if take 8 r = ''Infinity'' then (if neg then NInf else PInf)
         else
           (let ip = takeWhile isDigit r;
                r1 = dropWhile isDigit r;
                (fp, r2) = (case r1 of
                              c # r' \<Rightarrow> if c = CHR ''.''
                                        then (takeWhile isDigit r', dropWhile isDigit r')
                                        else ([], r1)
                            | [] \<Rightarrow> ([], r1))
            in if ip = [] \<and> fp = [] then NaN
               else
                 (let m = of_nat (digitsValue ip) + of_nat (digitsValue fp) / 10 ^ length fp;
                      v = scale10 m (exponentPart r2)
                  in Fin (if neg then - v else v))))"

section \<open>Units and the conversion factor (types.ts)\<close>

text \<open>
  \<open>Unit\<close> is a string enum: at run time a unit is the string stored in the
  document, so a value outside the four members can reach \<open>getConversionFactor\<close>,
  which has a \<open>default\<close> branch for it.
\<close>

type_synonym Unit = string

definition Unit_KG :: Unit where "Unit_KG = ''Kg''"
definition Unit_GR :: Unit where "Unit_GR = ''Gr''"
definition Unit_LT :: Unit where "Unit_LT = ''Lt''"
definition Unit_UN :: Unit where "Unit_UN = ''Un''"

definition getConversionFactor :: "Unit \<Rightarrow> jsnum" where
  "getConversionFactor unit =
     (if unit = Unit_KG then Fin 1000
      else if unit = Unit_LT then Fin 1000
      else if unit = Unit_GR then Fin 1
      else if unit = Unit_UN then Fin 1
      else Fin 1)"

section \<open>Documents (types.ts)\<close>

text \<open>
  The interfaces of \<open>types.ts\<close> as records. Field names that several interfaces
  share carry a prefix: \<open>ing_\<close> for \<open>Ingredient\<close>, \<open>row_\<close> for the stored
  \<open>RecipeIngredient\<close>, \<open>rd_\<close> for the recipe document.
\<close>

record Ingredient =
  ing_id :: string
  ing_userId :: string
  ing_name :: string
  ing_unit :: Unit
  ing_quantity :: "jsnum option"
  pricePerUnit :: jsnum

record RecipeIngredient =
  row_ingredientId :: string
  row_quantityUsed :: jsnum
  calculatedCost :: jsnum

text \<open>The document written by a recipe save; a stored \<open>Recipe\<close> adds the document id.\<close>

record recipeData =
  rd_userId :: string
  rd_name :: string
  ingredients :: "RecipeIngredient list"
  totalYieldWeight :: jsnum
  totalCost :: jsnum
  costPerGram :: jsnum

record Recipe = recipeData +
  recipe_id :: string

text \<open>
  The remote store is outside the program: a handler's effect on it is the request it
  issues, \<open>addDoc(collection, data)\<close> or \<open>updateDoc(doc(collection, id), data)\<close>.
\<close>

datatype 'a store_op = AddDoc string 'a | UpdateDoc string string 'a

fun payload :: "'a store_op \<Rightarrow> 'a" where
  "payload (AddDoc _ d) = d"
| "payload (UpdateDoc _ _ d) = d"

text \<open>\<open>if (editingId)\<close>: \<open>null\<close> and the empty string are falsy.\<close>

fun writeDoc :: "string \<Rightarrow> string option \<Rightarrow> 'a \<Rightarrow> 'a store_op" where
  "writeDoc coll None d = AddDoc coll d"
| "writeDoc coll (Some i) d = (if i \<noteq> [] then UpdateDoc coll i d else AddDoc coll d)"

section \<open>Recipe costing (components/Recipes.tsx)\<close>

record LocalRecipeIngredient =
  ingredientId :: string
  quantityUsed :: string

text \<open>The state of the form that the costing and the save read.\<close>

record Recipes_state =
  userId :: string
  availableIngredients :: "Ingredient list"
  recipeName :: string
  ingredientsList :: "LocalRecipeIngredient list"
  totalYield :: string
  editingId :: "string option"

text \<open>
  \<open>calculateTotalCost\<close> is a closure over \<open>availableIngredients\<close> and
  \<open>ingredientsList\<close>; they are its arguments here. \<open>addUsage\<close> is the body of its
  \<open>forEach\<close>, from the running total (\<open>tot\<close>) to the next one. No step of it can throw
  (\<open>ing\<close> is only read behind the guard), so the result is a plain number.
\<close>

definition addUsage :: "Ingredient list \<Rightarrow> jsnum \<Rightarrow> LocalRecipeIngredient \<Rightarrow> jsnum" where
  "addUsage avail tot item =
     (let ing = find (\<lambda>i. ing_id i = ingredientId item) avail;
          qty = parseFloat (quantityUsed item)
      in case ing of
           Some i \<Rightarrow>
             if \<not> isNaN qty then
               (let factor = getConversionFactor (ing_unit i)
                in jsadd tot (jsmul (jsdiv (pricePerUnit i) factor) qty))
             else tot
         | None \<Rightarrow> tot)"

definition calculateTotalCost :: "Ingredient list \<Rightarrow> LocalRecipeIngredient list \<Rightarrow> jsnum" where
  "calculateTotalCost avail items = foldl (addUsage avail) (Fin 0) items"

text \<open>
  The \<open>map\<close> of \<open>handleSubmit\<close> that builds the stored rows. It reads \<open>ing.unit\<close>
  with no guard (the \<open>!\<close> after \<open>find\<close> is erased at compile time), so a row whose
  ingredient is not found throws a TypeError, which ends the handler.
\<close>

datatype submit_error = ValidationAlert | TypeError

fun finalIngredients ::
  "Ingredient list \<Rightarrow> LocalRecipeIngredient list \<Rightarrow> submit_error + RecipeIngredient list" where
  "finalIngredients avail [] = Inr []"
| "finalIngredients avail (item # rest) =
     (case find (\<lambda>i. ing_id i = ingredientId item) avail of
        None \<Rightarrow> Inl TypeError
      | Some ing \<Rightarrow>
          (let qty = parseFloat (quantityUsed item);
               factor = getConversionFactor (ing_unit ing);
               row = \<lparr>row_ingredientId = ingredientId item,
                      row_quantityUsed = qty,
                      calculatedCost = jsmul (jsdiv (pricePerUnit ing) factor) qty\<rparr>
           in case finalIngredients avail rest of
                Inl e \<Rightarrow> Inl e
              | Inr rows \<Rightarrow> Inr (row # rows)))"

text \<open>
  \<open>handleSubmit\<close> of the recipe form: the validation alert, the costing, the rows, and
  the write request. \<open>Inl\<close> is a save that did not happen. The locals \<open>totalCost\<close>
  and \<open>costPerGram\<close> are \<open>tot\<close> and \<open>perGram\<close> here, the fields of the document
  having their names.
\<close>

definition Recipes_handleSubmit :: "Recipes_state \<Rightarrow> submit_error + recipeData store_op" where
  "Recipes_handleSubmit st =
     (let yieldWeight = parseFloat (totalYield st)
      in if recipeName st = [] \<or> length (ingredientsList st) = 0
            \<or> isNaN yieldWeight \<or> js_le yieldWeight (Fin 0)
         then Inl ValidationAlert
         else
           (let tot = calculateTotalCost (availableIngredients st) (ingredientsList st);
                perGram = jsdiv tot yieldWeight
            in case finalIngredients (availableIngredients st) (ingredientsList st) of
                 Inl e \<Rightarrow> Inl e
               | Inr rows \<Rightarrow>
                   Inr (writeDoc ''recipes'' (editingId st)
                          \<lparr>rd_userId = userId st,
                           rd_name = recipeName st,
                           ingredients = rows,
                           totalYieldWeight = yieldWeight,
                           totalCost = tot,
                           costPerGram = perGram\<rparr>)))"

subsection \<open>The form in front of the handler\<close>

text \<open>
  \<open>handleSubmit\<close> is the \<open>onSubmit\<close> of the form (there is no \<open>noValidate\<close>), and
  every control of the form is \<open>required\<close>: the name, in each row the ingredient
  \<open>select\<close> and the quantity, and the yield. The browser runs the handler only when
  every control is valid; otherwise the form is not submitted.

  Quantity and yield are \<open>type="number"\<close> fields. Such a field holds only a valid
  floating-point number and is empty for any other string, so it is valid when the string
  in the state is one: an optional \<open>-\<close>, digits, or a dot and digits, or both, and an
  optional exponent.
\<close>

definition validExponent :: "string \<Rightarrow> bool" where
  "validExponent s =
     (case s of
        [] \<Rightarrow> True
      | c # t \<Rightarrow>
          (c = CHR ''e'' \<or> c = CHR ''E'')
          \<and> (let d = (case t of
                         x # u \<Rightarrow> if x = CHR ''-'' \<or> x = CHR ''+'' then u else t
                       | [] \<Rightarrow> t)
             in d \<noteq> [] \<and> list_all isDigit d))"

definition unsignedFloat :: "string \<Rightarrow> bool" where
  "unsignedFloat r =
     (let ip = takeWhile isDigit r;
          r1 = dropWhile isDigit r;
          (ok, r2) = (case r1 of
                        c # t \<Rightarrow> if c = CHR ''.''
                                  then (takeWhile isDigit t \<noteq> [], dropWhile isDigit t)
                                  else (ip \<noteq> [], r1)
                      | [] \<Rightarrow> (ip \<noteq> [], r1))
      in ok \<and> validExponent r2)"

definition validFloat :: "string \<Rightarrow> bool" where
  "validFloat s =
     unsignedFloat (case s of c # t \<Rightarrow> if c = CHR ''-'' then t else s | [] \<Rightarrow> s)"

text \<open>
  The \<open>select\<close> of a row offers the placeholder, whose value is the empty string, and
  one option for each available ingredient, whose value is its id. It shows the option
  that has the row's \<open>ingredientId\<close>, and the placeholder when no option has it; it is
  valid when the value it shows is not empty.
\<close>

definition selectValue :: "Ingredient list \<Rightarrow> string \<Rightarrow> string" where
  "selectValue avail v = (if v \<in> set (map ing_id avail) then v else [])"

definition rowValid :: "Ingredient list \<Rightarrow> LocalRecipeIngredient \<Rightarrow> bool" where
  "rowValid avail row =
     (selectValue avail (ingredientId row) \<noteq> [] \<and> validFloat (quantityUsed row))"

definition formValid :: "Recipes_state \<Rightarrow> bool" where
  "formValid st =
     (recipeName st \<noteq> []
      \<and> list_all (rowValid (availableIngredients st)) (ingredientsList st)
      \<and> validFloat (totalYield st))"

text \<open>
  Pressing the save button: \<open>None\<close> when the form is not submitted, else what the
  handler does. Only \<open>required\<close> and the type of the fields are written out; a browser
  refuses no less than this.
\<close>

definition Recipes_submit :: "Recipes_state \<Rightarrow> (submit_error + recipeData store_op) option" where
  "Recipes_submit st = (if formValid st then Some (Recipes_handleSubmit st) else None)"

subsection \<open>The costing as the specification words it\<close>

text \<open>
  The specification's \<open>usageCost\<close> and \<open>costRecipe\<close>, to compare with the code above:
  a usage costs \<open>(price / factor) * quantity\<close>, a usage that does not resolve or does
  not parse costs 0, and the total is the sum of the usage costs.
\<close>

definition spec_usageCost :: "Ingredient \<Rightarrow> jsnum \<Rightarrow> jsnum" where
  "spec_usageCost ing q = jsmul (jsdiv (pricePerUnit ing) (getConversionFactor (ing_unit ing))) q"

definition usable :: "Ingredient list \<Rightarrow> LocalRecipeIngredient \<Rightarrow> bool" where
  "usable avail item =
     (find (\<lambda>i. ing_id i = ingredientId item) avail \<noteq> None
      \<and> \<not> isNaN (parseFloat (quantityUsed item)))"

definition spec_contribution :: "Ingredient list \<Rightarrow> LocalRecipeIngredient \<Rightarrow> jsnum" where
  "spec_contribution avail item =
     (case find (\<lambda>i. ing_id i = ingredientId item) avail of
        None \<Rightarrow> Fin 0
      | Some ing \<Rightarrow>
          if isNaN (parseFloat (quantityUsed item)) then Fin 0
          else spec_usageCost ing (parseFloat (quantityUsed item)))"

definition jssum :: "jsnum list \<Rightarrow> jsnum" where
  "jssum xs = foldl jsadd (Fin 0) xs"

section \<open>Sale pricing (the Calculator component)\<close>

record Calculator_state =
  recipes :: "Recipe list"
  selectedRecipeId :: string
  sellWeight :: string

definition selectedRecipe :: "Calculator_state \<Rightarrow> Recipe option" where
  "selectedRecipe st = find (\<lambda>r. recipe_id r = selectedRecipeId st) (recipes st)"

definition weight :: "Calculator_state \<Rightarrow> jsnum" where
  "weight st = js_or (parseFloat (sellWeight st)) (Fin 0)"

definition sale_costPerGram :: "Calculator_state \<Rightarrow> jsnum" where
  "sale_costPerGram st = (case selectedRecipe st of Some r \<Rightarrow> costPerGram r | None \<Rightarrow> Fin 0)"

definition realCost :: "Calculator_state \<Rightarrow> jsnum" where
  "realCost st = jsmul (sale_costPerGram st) (weight st)"

definition suggestedPrice :: "Calculator_state \<Rightarrow> jsnum" where
  "suggestedPrice st = jsmul (realCost st) (Fin 3)"

definition profit :: "Calculator_state \<Rightarrow> jsnum" where
  "profit st = jssub (suggestedPrice st) (realCost st)"

section \<open>The ingredient form (the Ingredients component)\<close>

record Ingredients_state =
  form_userId :: string
  form_ingredients :: "Ingredient list"
  form_name :: string
  form_unit :: Unit
  form_price :: string
  form_editingId :: "string option"

record ingredientData =
  data_name :: string
  data_unit :: Unit
  data_pricePerUnit :: jsnum
  data_userId :: string

text \<open>
  The handler returns without a word when the trimmed name or the price is empty, and
  with the error message when another ingredient has the name.
\<close>

datatype form_error = MissingField | DuplicateName

definition Ingredients_handleSubmit :: "Ingredients_state \<Rightarrow> form_error + ingredientData store_op" where
  "Ingredients_handleSubmit st =
     (let trimmedName = trim (form_name st)
      in if trimmedName = [] \<or> form_price st = [] then Inl MissingField
         else
           (let exists = list_ex (\<lambda>ing. toLowerCase (ing_name ing) = toLowerCase trimmedName
                                         \<and> Some (ing_id ing) \<noteq> form_editingId st)
                           (form_ingredients st)
            in if exists then Inl DuplicateName
               else Inr (writeDoc ''ingredients'' (form_editingId st)
                           \<lparr>data_name = trimmedName,
                            data_unit = form_unit st,
                            data_pricePerUnit = parseFloat (form_price st),
                            data_userId = form_userId st\<rparr>)))"

section \<open>Scenarios\<close>

text \<open>
  The concrete inputs of the specification's scenarios and of the evaluations below:
  almond flour bought at 10000 per kilogram, eggs bought at 5 apiece.
\<close>

definition flour :: Ingredient where
  "flour = \<lparr>ing_id = ''flour'', ing_userId = ''u1'', ing_name = ''Harina de Almendras'',
     ing_unit = Unit_KG, ing_quantity = None, pricePerUnit = Fin 10000\<rparr>"

definition egg :: Ingredient where
  "egg = \<lparr>ing_id = ''egg'', ing_userId = ''u1'', ing_name = ''Huevo'',
     ing_unit = Unit_UN, ing_quantity = None, pricePerUnit = Fin 5\<rparr>"

text \<open>Scenario B: two usages of 200 grams of flour, a yield of 1000.\<close>

definition cake_form :: Recipes_state where
  "cake_form = \<lparr>userId = ''u1'', availableIngredients = [flour, egg], recipeName = ''Torta'',
     ingredientsList = [\<lparr>ingredientId = ''flour'', quantityUsed = ''200''\<rparr>,
                        \<lparr>ingredientId = ''flour'', quantityUsed = ''200''\<rparr>],
     totalYield = ''1000'', editingId = None\<rparr>"

text \<open>Scenario E: the second usage names an ingredient that is no longer available.\<close>

definition stale_form :: Recipes_state where
  "stale_form = cake_form\<lparr>ingredientsList :=
     [\<lparr>ingredientId = ''flour'', quantityUsed = ''200''\<rparr>,
      \<lparr>ingredientId = ''deleted'', quantityUsed = ''50''\<rparr>]\<rparr>"

text \<open>A row as \<open>addIngredientRow\<close> leaves it once an ingredient is chosen: no quantity yet.\<close>

definition blank_quantity_form :: Recipes_state where
  "blank_quantity_form = cake_form\<lparr>ingredientsList :=
     [\<lparr>ingredientId = ''flour'', quantityUsed = ''200''\<rparr>,
      \<lparr>ingredientId = ''egg'', quantityUsed = []\<rparr>]\<rparr>"



text \<open>Scenario C: a recipe stored with a cost of 4 per gram, 100 grams sold.\<close>

definition cake :: Recipe where
  "cake = \<lparr>rd_userId = ''u1'', rd_name = ''Torta'',
     ingredients = [\<lparr>row_ingredientId = ''flour'', row_quantityUsed = Fin 400,
                      calculatedCost = Fin 4000\<rparr>],
     totalYieldWeight = Fin 1000, totalCost = Fin 4000, costPerGram = Fin 4,
     recipe_id = ''r1''\<rparr>"

definition sale :: Calculator_state where
  "sale = \<lparr>recipes = [cake], selectedRecipeId = ''r1'', sellWeight = ''100''\<rparr>"

text \<open>The ingredient form, filled in with a padded name and with a negative price.\<close>

definition stevia_form :: Ingredients_state where
  "stevia_form = \<lparr>form_userId = ''u1'', form_ingredients = [flour, egg],
     form_name = ''  Stevia '', form_unit = Unit_GR, form_price = ''12.5'',
     form_editingId = None\<rparr>"

definition negative_price_form :: Ingredients_state where
  "negative_price_form = stevia_form\<lparr>form_price := ''-5''\<rparr>"

definition blank_name_form :: Ingredients_state where
  "blank_name_form = stevia_form\<lparr>form_name := ''   ''\<rparr>"

definition duplicate_name_form :: Ingredients_state where
  "duplicate_name_form = stevia_form\<lparr>form_name := '' HUEVO  ''\<rparr>"

section \<open>Arithmetic and list facts\<close>

lemma jsadd_zero_right: "jsadd x (Fin 0) = x"
  by (cases x) simp_all

lemma jsadd_zero_left: "jsadd (Fin 0) x = x"
  by (cases x) simp_all

lemma jsmul_commute: "jsmul x y = jsmul y x"
  by (cases x; cases y) (simp_all add: mult.commute)

lemma js_gt_iff_not_le_zero: "js_gt y (Fin 0) \<longleftrightarrow> \<not> (isNaN y \<or> js_le y (Fin 0))"
  by (cases y) (auto simp: isNaN_def)

lemma addUsage_contribution: "addUsage avail tot item = jsadd tot (spec_contribution avail item)"
  by (simp add: addUsage_def spec_contribution_def spec_usageCost_def jsadd_zero_right Let_def
      split: option.splits)

lemma addUsage_unusable: "\<not> usable avail item \<Longrightarrow> addUsage avail tot item = tot"
  by (auto simp: addUsage_def usable_def Let_def split: option.splits)

lemma foldl_addUsage_filter:
  "foldl (addUsage avail) tot items = foldl (addUsage avail) tot (filter (usable avail) items)"
  by (induction items arbitrary: tot) (simp_all add: addUsage_unusable)

lemma foldl_addUsage_sum:
  "foldl (addUsage avail) tot items = foldl jsadd tot (map (spec_contribution avail) items)"
  by (induction items arbitrary: tot) (simp_all add: addUsage_contribution)

lemma calculateTotalCost_sum:
  "calculateTotalCost avail items = jssum (map (spec_contribution avail) items)"
  by (simp add: calculateTotalCost_def jssum_def foldl_addUsage_sum)

lemma calculateTotalCost_filter:
  "calculateTotalCost avail items = calculateTotalCost avail (filter (usable avail) items)"
  unfolding calculateTotalCost_def by (rule foldl_addUsage_filter)

lemma finalIngredients_Inr_iff:
  "(\<exists>rows. finalIngredients avail items = Inr rows)
   \<longleftrightarrow> (\<forall>item \<in> set items. find (\<lambda>i. ing_id i = ingredientId item) avail \<noteq> None)"
  by (induction items) (auto split: option.splits sum.splits simp: Let_def)

lemma finalIngredients_error: "finalIngredients avail items = Inl e \<Longrightarrow> e = TypeError"
  by (induction items arbitrary: e) (auto split: option.splits sum.splits simp: Let_def)

lemma finalIngredients_length:
  "finalIngredients avail items = Inr rows \<Longrightarrow> length rows = length items"
  by (induction items arbitrary: rows) (auto split: option.splits sum.splits simp: Let_def)

lemma payload_writeDoc: "payload (writeDoc coll eid d) = d"
  by (cases eid) simp_all

lemma trim_decomposition:
  "\<exists>pre post. s = pre @ trim s @ post \<and> (\<forall>c \<in> set pre. isWhiteSpace c) \<and> (\<forall>c \<in> set post. isWhiteSpace c)"
proof -
  let ?t = "trimStart s"
  have a: "s = takeWhile isWhiteSpace s @ ?t"
    by (simp add: trimStart_def)
  have "trim s @ rev (takeWhile isWhiteSpace (rev ?t))
          = rev (takeWhile isWhiteSpace (rev ?t) @ dropWhile isWhiteSpace (rev ?t))"
    by (simp only: trim_def trimEnd_def rev_append)
  also have "\<dots> = rev (rev ?t)"
    by (simp only: takeWhile_dropWhile_id)
  finally have b: "?t = trim s @ rev (takeWhile isWhiteSpace (rev ?t))"
    by simp
  have "s = takeWhile isWhiteSpace s @ trim s @ rev (takeWhile isWhiteSpace (rev ?t))"
    using a b by simp
  moreover have "\<forall>c \<in> set (takeWhile isWhiteSpace s). isWhiteSpace c"
    by (auto dest: set_takeWhileD)
  moreover have "\<forall>c \<in> set (rev (takeWhile isWhiteSpace (rev ?t))). isWhiteSpace c"
    by (auto dest: set_takeWhileD)
  ultimately show ?thesis by blast
qed

lemma trim_no_outer_space:
  "trim s \<noteq> [] \<Longrightarrow> \<not> isWhiteSpace (hd (trim s)) \<and> \<not> isWhiteSpace (last (trim s))"
proof -
  assume ne: "trim s \<noteq> []"
  let ?t = "trimStart s"
  let ?u = "dropWhile isWhiteSpace (rev ?t)"
  have u: "trim s = rev ?u"
    by (simp add: trim_def trimEnd_def)
  with ne have une: "?u \<noteq> []" by simp
  then have "\<not> isWhiteSpace (hd ?u)" by (rule hd_dropWhile)
  then have l: "\<not> isWhiteSpace (last (trim s))"
    using une by (simp add: u last_rev)
  have tne: "?t \<noteq> []" using une by auto
  then have "\<not> isWhiteSpace (hd ?t)"
    unfolding trimStart_def by (rule hd_dropWhile)
  moreover have "hd (trim s) = hd ?t"
  proof -
    have "rev ?t = takeWhile isWhiteSpace (rev ?t) @ ?u"
      by (simp only: takeWhile_dropWhile_id)
    then have "rev (rev ?t) = rev (takeWhile isWhiteSpace (rev ?t) @ ?u)"
      by (rule arg_cong)
    then have "?t = trim s @ rev (takeWhile isWhiteSpace (rev ?t))"
      by (simp only: rev_rev_ident rev_append u)
    then have "hd ?t = hd (trim s @ rev (takeWhile isWhiteSpace (rev ?t)))"
      by (rule arg_cong)
    also have "\<dots> = hd (trim s)" using ne by (rule hd_append2)
    finally show ?thesis by (rule sym)
  qed
  ultimately show ?thesis using l by simp
qed

lemma trim_all_space: "(\<forall>c \<in> set s. isWhiteSpace c) \<Longrightarrow> trim s = []"
proof -
  assume "\<forall>c \<in> set s. isWhiteSpace c"
  then have "trimStart s = []"
    by (simp add: trimStart_def)
  then show ?thesis by (simp add: trim_def trimEnd_def)
qed

section \<open>The conversion factor\<close>

text \<open>
  Claim C4. \<open>getConversionFactor\<close> is defined on every unit value: it is 1000 for
  kilogram and liter, 1 for gram and unit, 1 for every value outside the four members,
  and greater than 0 for every value.
\<close>

theorem conversion_factor_total:
  "getConversionFactor Unit_KG = Fin 1000
   \<and> getConversionFactor Unit_LT = Fin 1000
   \<and> getConversionFactor Unit_GR = Fin 1
   \<and> getConversionFactor Unit_UN = Fin 1
   \<and> (u \<notin> {Unit_KG, Unit_LT, Unit_GR, Unit_UN} \<longrightarrow> getConversionFactor u = Fin 1)
   \<and> js_gt (getConversionFactor u) (Fin 0)"
  by (simp add: getConversionFactor_def Unit_KG_def Unit_LT_def Unit_GR_def Unit_UN_def)

theorem conversion_factor_total_witness:
  "''Oz'' \<notin> {Unit_KG, Unit_LT, Unit_GR, Unit_UN}
   \<and> getConversionFactor ''Oz'' = Fin 1
   \<and> js_gt (getConversionFactor ''Oz'') (Fin 0)"
proof -
  have h: "''Oz'' \<notin> {Unit_KG, Unit_LT, Unit_GR, Unit_UN}"
    by (simp add: Unit_KG_def Unit_LT_def Unit_GR_def Unit_UN_def)
  show ?thesis using h conversion_factor_total [of "''Oz''"] by blast
qed

section \<open>The cost of one usage\<close>

text \<open>
  Claim C1. When a usage resolves to an ingredient with unit \<open>u\<close> and price \<open>p\<close> and
  its quantity parses to a number \<open>q\<close>, it adds \<open>(p / getConversionFactor u) * q\<close> to
  the total, after any list of usages, and alone it makes that the total. At a price of
  10000 per kilogram a quantity of 200 costs 2000; at 5 per unit a quantity of 3 costs 15.
\<close>

theorem usage_cost_contribution:
  assumes "find (\<lambda>i. ing_id i = ingredientId item) avail = Some ing"
    and "parseFloat (quantityUsed item) = q"
    and "\<not> isNaN q"
  shows "calculateTotalCost avail (items @ [item])
           = jsadd (calculateTotalCost avail items)
                   (jsmul (jsdiv (pricePerUnit ing) (getConversionFactor (ing_unit ing))) q)
       \<and> calculateTotalCost avail [item]
           = jsmul (jsdiv (pricePerUnit ing) (getConversionFactor (ing_unit ing))) q
       \<and> (ing_unit ing = Unit_KG \<and> pricePerUnit ing = Fin 10000 \<and> q = Fin 200
            \<longrightarrow> calculateTotalCost avail [item] = Fin 2000)
       \<and> (ing_unit ing = Unit_UN \<and> pricePerUnit ing = Fin 5 \<and> q = Fin 3
            \<longrightarrow> calculateTotalCost avail [item] = Fin 15)"
proof -
  let ?c = "jsmul (jsdiv (pricePerUnit ing) (getConversionFactor (ing_unit ing))) q"
  have step: "addUsage avail tot item = jsadd tot ?c" for tot
    using assms by (simp add: addUsage_def Let_def)
  have one: "calculateTotalCost avail [item] = ?c"
    by (simp add: calculateTotalCost_def step jsadd_zero_left)
  have app: "calculateTotalCost avail (items @ [item]) = jsadd (calculateTotalCost avail items) ?c"
    by (simp add: calculateTotalCost_def step)
  have kg: "calculateTotalCost avail [item] = Fin 2000"
    if "ing_unit ing = Unit_KG \<and> pricePerUnit ing = Fin 10000 \<and> q = Fin 200"
    using that by (simp add: one getConversionFactor_def)
  have un: "calculateTotalCost avail [item] = Fin 15"
    if "ing_unit ing = Unit_UN \<and> pricePerUnit ing = Fin 5 \<and> q = Fin 3"
    using that by (simp add: one getConversionFactor_def Unit_UN_def Unit_KG_def Unit_LT_def Unit_GR_def)
  show ?thesis using one app kg un by blast
qed

theorem usage_cost_contribution_witness:
  "calculateTotalCost [flour, egg] [\<lparr>ingredientId = ''flour'', quantityUsed = ''200''\<rparr>] = Fin 2000
   \<and> calculateTotalCost [flour, egg] [\<lparr>ingredientId = ''egg'', quantityUsed = ''3''\<rparr>] = Fin 15"
proof -
  let ?a = "\<lparr>ingredientId = ''flour'', quantityUsed = ''200''\<rparr>"
  let ?d = "\<lparr>ingredientId = ''egg'', quantityUsed = ''3''\<rparr>"
  have a1: "find (\<lambda>i. ing_id i = ingredientId ?a) [flour, egg] = Some flour"
    by (simp add: flour_def)
  have a2: "parseFloat (quantityUsed ?a) = Fin 200" by code_simp
  have d1: "find (\<lambda>i. ing_id i = ingredientId ?d) [flour, egg] = Some egg"
    by (simp add: flour_def egg_def)
  have d2: "parseFloat (quantityUsed ?d) = Fin 3" by code_simp
  have n: "\<not> isNaN (Fin x)" for x by (simp add: isNaN_def)
  have a3: "ing_unit flour = Unit_KG \<and> pricePerUnit flour = Fin 10000 \<and> Fin 200 = Fin 200"
    by (simp add: flour_def)
  have d3: "ing_unit egg = Unit_UN \<and> pricePerUnit egg = Fin 5 \<and> Fin 3 = Fin 3"
    by (simp add: egg_def)
  have "calculateTotalCost [flour, egg] [?a] = Fin 2000"
    using usage_cost_contribution [OF a1 a2 n, where items = "[]"] a3 by blast
  moreover have "calculateTotalCost [flour, egg] [?d] = Fin 15"
    using usage_cost_contribution [OF d1 d2 n, where items = "[]"] d3 by blast
  ultimately show ?thesis by blast
qed

section \<open>The recipe costing\<close>

text \<open>Evaluations of \<open>parseFloat\<close> on the scenarios' inputs.\<close>

lemma parseFloat_200: "parseFloat ''200'' = Fin 200" by code_simp
lemma parseFloat_1000: "parseFloat ''1000'' = Fin 1000" by code_simp
lemma parseFloat_100: "parseFloat ''100'' = Fin 100" by code_simp
lemma parseFloat_empty: "parseFloat [] = NaN" by code_simp
lemma parseFloat_Infinity: "parseFloat ''Infinity'' = PInf" by code_simp
lemma parseFloat_minus_5: "parseFloat ''-5'' = Fin (- 5)" by code_simp
lemma parseFloat_12_5: "parseFloat ''12.5'' = Fin (25 / 2)" by code_simp

text \<open>What a save that reaches the store has checked and what it writes.\<close>

lemma Recipes_handleSubmit_Inr:
  assumes "Recipes_handleSubmit st = Inr op"
  shows "\<exists>rows. finalIngredients (availableIngredients st) (ingredientsList st) = Inr rows
          \<and> payload op = \<lparr>rd_userId = userId st, rd_name = recipeName st, ingredients = rows,
               totalYieldWeight = parseFloat (totalYield st),
               totalCost = calculateTotalCost (availableIngredients st) (ingredientsList st),
               costPerGram = jsdiv (calculateTotalCost (availableIngredients st) (ingredientsList st))
                                   (parseFloat (totalYield st))\<rparr>
          \<and> recipeName st \<noteq> [] \<and> ingredientsList st \<noteq> []
          \<and> js_gt (parseFloat (totalYield st)) (Fin 0)"
  using assms
  by (auto simp: Recipes_handleSubmit_def Let_def payload_writeDoc js_gt_iff_not_le_zero
      split: if_splits sum.splits)

text \<open>
  Claim C2. For every usage list the total cost is the sum of the usage costs, a usage
  that does not resolve or does not parse counting 0. A save that reaches the store has a
  yield greater than 0 and writes that total as \<open>totalCost\<close> and the total divided
  by the yield as \<open>costPerGram\<close>. With two usages that cost 2000 each and a yield of
  1000 it writes a total of 4000 and a cost of 4 per gram.
\<close>

theorem recipe_costing:
  "calculateTotalCost avail items = jssum (map (spec_contribution avail) items)
   \<and> (Recipes_handleSubmit st = Inr op \<longrightarrow>
        totalCost (payload op)
          = jssum (map (spec_contribution (availableIngredients st)) (ingredientsList st))
        \<and> js_gt (parseFloat (totalYield st)) (Fin 0)
        \<and> totalYieldWeight (payload op) = parseFloat (totalYield st)
        \<and> costPerGram (payload op) = jsdiv (totalCost (payload op)) (parseFloat (totalYield st))
        \<and> (map (spec_contribution (availableIngredients st)) (ingredientsList st)
              = [Fin 2000, Fin 2000] \<and> parseFloat (totalYield st) = Fin 1000
            \<longrightarrow> totalCost (payload op) = Fin 4000 \<and> costPerGram (payload op) = Fin 4))"
proof -
  have a: "calculateTotalCost avail items = jssum (map (spec_contribution avail) items)"
    by (rule calculateTotalCost_sum)
  have b: "totalCost (payload op)
          = jssum (map (spec_contribution (availableIngredients st)) (ingredientsList st))
        \<and> js_gt (parseFloat (totalYield st)) (Fin 0)
        \<and> totalYieldWeight (payload op) = parseFloat (totalYield st)
        \<and> costPerGram (payload op) = jsdiv (totalCost (payload op)) (parseFloat (totalYield st))
        \<and> (map (spec_contribution (availableIngredients st)) (ingredientsList st)
              = [Fin 2000, Fin 2000] \<and> parseFloat (totalYield st) = Fin 1000
            \<longrightarrow> totalCost (payload op) = Fin 4000 \<and> costPerGram (payload op) = Fin 4)"
    if h: "Recipes_handleSubmit st = Inr op"
  proof -
    from Recipes_handleSubmit_Inr [OF h] obtain rows where
      p: "payload op = \<lparr>rd_userId = userId st, rd_name = recipeName st, ingredients = rows,
               totalYieldWeight = parseFloat (totalYield st),
               totalCost = calculateTotalCost (availableIngredients st) (ingredientsList st),
               costPerGram = jsdiv (calculateTotalCost (availableIngredients st) (ingredientsList st))
                                   (parseFloat (totalYield st))\<rparr>"
      and y: "js_gt (parseFloat (totalYield st)) (Fin 0)"
      by blast
    have t: "totalCost (payload op)
          = jssum (map (spec_contribution (availableIngredients st)) (ingredientsList st))"
      by (simp add: p calculateTotalCost_sum)
    have c: "costPerGram (payload op) = jsdiv (totalCost (payload op)) (parseFloat (totalYield st))"
      by (simp add: p)
    have w: "totalYieldWeight (payload op) = parseFloat (totalYield st)"
      by (simp add: p)
    have s: "totalCost (payload op) = Fin 4000 \<and> costPerGram (payload op) = Fin 4"
      if "map (spec_contribution (availableIngredients st)) (ingredientsList st)
              = [Fin 2000, Fin 2000] \<and> parseFloat (totalYield st) = Fin 1000"
      using that t c by (simp add: jssum_def)
    show ?thesis using t y w c s by blast
  qed
  show ?thesis using a b by blast
qed

theorem recipe_costing_witness:
  "(\<exists>op. Recipes_handleSubmit cake_form = Inr op
       \<and> totalCost (payload op) = Fin 4000 \<and> costPerGram (payload op) = Fin 4)"
proof -
  let ?d = "\<lparr>rd_userId = ''u1'', rd_name = ''Torta'',
     ingredients = [\<lparr>row_ingredientId = ''flour'', row_quantityUsed = Fin 200,
                      calculatedCost = Fin 2000\<rparr>,
                    \<lparr>row_ingredientId = ''flour'', row_quantityUsed = Fin 200,
                      calculatedCost = Fin 2000\<rparr>],
     totalYieldWeight = Fin 1000, totalCost = Fin 4000, costPerGram = Fin 4\<rparr>"
  have "Recipes_handleSubmit cake_form = Inr (AddDoc ''recipes'' ?d)"
    by (simp add: Recipes_handleSubmit_def cake_form_def flour_def egg_def parseFloat_200
        parseFloat_1000 isNaN_def calculateTotalCost_def addUsage_def getConversionFactor_def
        Let_def)
  then obtain op where h: "Recipes_handleSubmit cake_form = Inr op" ..
  have m: "map (spec_contribution (availableIngredients cake_form)) (ingredientsList cake_form)
              = [Fin 2000, Fin 2000] \<and> parseFloat (totalYield cake_form) = Fin 1000"
    by (simp add: cake_form_def flour_def egg_def spec_contribution_def spec_usageCost_def
        parseFloat_200 parseFloat_1000 isNaN_def getConversionFactor_def)
  note r = recipe_costing [where avail = "[]" and items = "[]", THEN conjunct2, THEN mp, OF h]
  from r m have "totalCost (payload op) = Fin 4000 \<and> costPerGram (payload op) = Fin 4"
    by blast
  with h show ?thesis by blast
qed

section \<open>The sale pricing\<close>

lemma weight_numeric: "\<not> isNaN (parseFloat (sellWeight st)) \<Longrightarrow> weight st = parseFloat (sellWeight st)"
  by (auto simp: weight_def js_or_def js_truthy_def isNaN_def)

text \<open>
  Claim C3. With a recipe selected whose cost per gram is \<open>c\<close> and a quantity sold
  that parses to a number \<open>q\<close>, the real cost is \<open>c * q\<close>; in every state the
  suggested price is 3 times the real cost and the profit is the suggested price minus
  the real cost. A quantity of 100 at a cost of 4 gives 400, 1200 and 800.
\<close>

theorem sale_pricing:
  "(selectedRecipe st = Some r \<and> parseFloat (sellWeight st) = q \<and> \<not> isNaN q
      \<longrightarrow> realCost st = jsmul (costPerGram r) q)
   \<and> suggestedPrice st = jsmul (Fin 3) (realCost st)
   \<and> profit st = jssub (suggestedPrice st) (realCost st)
   \<and> (selectedRecipe st = Some r \<and> costPerGram r = Fin 4 \<and> parseFloat (sellWeight st) = Fin 100
      \<longrightarrow> realCost st = Fin 400 \<and> suggestedPrice st = Fin 1200 \<and> profit st = Fin 800)"
proof -
  have a: "realCost st = jsmul (costPerGram r) q"
    if "selectedRecipe st = Some r \<and> parseFloat (sellWeight st) = q \<and> \<not> isNaN q"
    using that by (auto simp: realCost_def sale_costPerGram_def weight_numeric)
  have b: "suggestedPrice st = jsmul (Fin 3) (realCost st)"
    unfolding suggestedPrice_def by (rule jsmul_commute)
  have c: "profit st = jssub (suggestedPrice st) (realCost st)"
    by (simp add: profit_def)
  have d: "realCost st = Fin 400 \<and> suggestedPrice st = Fin 1200 \<and> profit st = Fin 800"
    if h: "selectedRecipe st = Some r \<and> costPerGram r = Fin 4 \<and> parseFloat (sellWeight st) = Fin 100"
  proof -
    have "weight st = Fin 100"
      using h by (simp add: weight_numeric isNaN_def)
    then have "realCost st = Fin 400"
      using h by (simp add: realCost_def sale_costPerGram_def)
    then show ?thesis
      by (simp add: profit_def suggestedPrice_def jssub_def)
  qed
  show ?thesis using a b c d by blast
qed

theorem sale_pricing_witness:
  "realCost sale = Fin 400 \<and> suggestedPrice sale = Fin 1200 \<and> profit sale = Fin 800"
proof -
  have h: "selectedRecipe sale = Some cake \<and> costPerGram cake = Fin 4
           \<and> parseFloat (sellWeight sale) = Fin 100"
    by (simp add: selectedRecipe_def sale_def cake_def parseFloat_100)
  from sale_pricing [of sale cake "Fin 100"] h show ?thesis by blast
qed

section \<open>Usages that do not count\<close>

text \<open>
  Claim C5. A usage whose ingredient id resolves to no available ingredient, or whose
  quantity parses to NaN, leaves the total as it is wherever it stands in the list and
  counts 0; the total is the sum of the costs of the usages that resolve and parse, each
  of them \<open>(price / factor) * quantity\<close>. \<open>calculateTotalCost\<close> returns a number
  on every input: it has no step that throws.
\<close>

theorem unusable_usage_excluded:
  "((find (\<lambda>i. ing_id i = ingredientId item) avail = None
       \<or> isNaN (parseFloat (quantityUsed item)))
      \<longrightarrow> calculateTotalCost avail (before @ item # after) = calculateTotalCost avail (before @ after)
          \<and> spec_contribution avail item = Fin 0)
   \<and> calculateTotalCost avail items
       = jssum (map (spec_contribution avail) (filter (usable avail) items))
   \<and> (\<forall>x \<in> set (filter (usable avail) items).
        \<exists>ing. find (\<lambda>i. ing_id i = ingredientId x) avail = Some ing
            \<and> \<not> isNaN (parseFloat (quantityUsed x))
            \<and> spec_contribution avail x = spec_usageCost ing (parseFloat (quantityUsed x)))"
proof -
  have a: "calculateTotalCost avail (before @ item # after) = calculateTotalCost avail (before @ after)
          \<and> spec_contribution avail item = Fin 0"
    if h: "find (\<lambda>i. ing_id i = ingredientId item) avail = None
           \<or> isNaN (parseFloat (quantityUsed item))"
  proof -
    from h have "\<not> usable avail item"
      by (auto simp: usable_def)
    then have "addUsage avail tot item = tot" for tot
      by (rule addUsage_unusable)
    then have "calculateTotalCost avail (before @ item # after)
               = calculateTotalCost avail (before @ after)"
      by (simp add: calculateTotalCost_def)
    moreover from h have "spec_contribution avail item = Fin 0"
      by (auto simp: spec_contribution_def split: option.splits)
    ultimately show ?thesis by simp
  qed
  have b: "calculateTotalCost avail items
       = jssum (map (spec_contribution avail) (filter (usable avail) items))"
  proof -
    have "calculateTotalCost avail items = calculateTotalCost avail (filter (usable avail) items)"
      by (rule calculateTotalCost_filter)
    then show ?thesis by (simp only: calculateTotalCost_sum)
  qed
  have c: "\<exists>ing. find (\<lambda>i. ing_id i = ingredientId x) avail = Some ing
            \<and> \<not> isNaN (parseFloat (quantityUsed x))
            \<and> spec_contribution avail x = spec_usageCost ing (parseFloat (quantityUsed x))"
    if "x \<in> set (filter (usable avail) items)" for x
    using that by (auto simp: usable_def spec_contribution_def)
  show ?thesis using a b c by blast
qed

theorem unusable_usage_excluded_witness:
  "calculateTotalCost [flour, egg]
     [\<lparr>ingredientId = ''flour'', quantityUsed = ''200''\<rparr>,
      \<lparr>ingredientId = ''deleted'', quantityUsed = ''50''\<rparr>,
      \<lparr>ingredientId = ''egg'', quantityUsed = []\<rparr>] = Fin 2000"
proof -
  let ?a = "\<lparr>ingredientId = ''flour'', quantityUsed = ''200''\<rparr>"
  let ?e = "\<lparr>ingredientId = ''deleted'', quantityUsed = ''50''\<rparr>"
  let ?n = "\<lparr>ingredientId = ''egg'', quantityUsed = []\<rparr>"
  have e: "find (\<lambda>i. ing_id i = ingredientId ?e) [flour, egg] = None
           \<or> isNaN (parseFloat (quantityUsed ?e))"
    by (simp add: flour_def egg_def)
  have n: "find (\<lambda>i. ing_id i = ingredientId ?n) [flour, egg] = None
           \<or> isNaN (parseFloat (quantityUsed ?n))"
    by (simp add: parseFloat_empty isNaN_def)
  have "calculateTotalCost [flour, egg] ([?a] @ ?e # [?n]) = calculateTotalCost [flour, egg] ([?a] @ [?n])"
    using unusable_usage_excluded [of ?e "[flour, egg]" "[?a]" "[?n]" "[]"] e by blast
  moreover have "calculateTotalCost [flour, egg] ([?a] @ ?n # []) = calculateTotalCost [flour, egg] ([?a] @ [])"
    using unusable_usage_excluded [of ?n "[flour, egg]" "[?a]" "[]" "[]"] n by blast
  moreover have "calculateTotalCost [flour, egg] [?a] = Fin 2000"
    by (simp add: calculateTotalCost_def addUsage_def flour_def parseFloat_200 isNaN_def
        getConversionFactor_def Let_def)
  ultimately show ?thesis by simp
qed

section \<open>What the form lets through\<close>

text \<open>
  A number field never hands \<open>Infinity\<close> to the handler: that string is not a valid
  floating-point number, and a valid one parses to a finite number.
\<close>

lemma validFloat_200: "validFloat ''200''" by code_simp
lemma validFloat_1000: "validFloat ''1000''" by code_simp
lemma empty_not_validFloat: "\<not> validFloat []" by code_simp
lemma Infinity_not_validFloat: "\<not> validFloat ''Infinity''" by code_simp

lemma unsignedFloat_start:
  assumes "unsignedFloat r"
  shows "\<exists>c t. r = c # t \<and> (isDigit c \<or> c = CHR ''.'')"
proof (cases r)
  case Nil
  with assms show ?thesis by (simp add: unsignedFloat_def)
next
  case (Cons c t)
  show ?thesis
  proof (cases "isDigit c")
    case True
    with Cons show ?thesis by simp
  next
    case False
    with Cons assms have "c = CHR ''.''"
      by (simp add: unsignedFloat_def split: if_splits)
    with Cons show ?thesis by simp
  qed
qed

lemma unsignedFloat_digits:
  assumes "unsignedFloat r"
    and "(case dropWhile isDigit r of
            c # r' \<Rightarrow> if c = CHR ''.''
                      then (takeWhile isDigit r', dropWhile isDigit r')
                      else ([], dropWhile isDigit r)
          | [] \<Rightarrow> ([], dropWhile isDigit r)) = (fp, r2)"
  shows "\<not> (takeWhile isDigit r = [] \<and> fp = [])"
  using assms
  by (cases "dropWhile isDigit r") (auto simp: unsignedFloat_def Let_def split: if_splits)

lemma unsignedFloat_splitSign:
  assumes "unsignedFloat r"
  shows "splitSign (trimStart r) = (False, r)"
proof -
  from unsignedFloat_start [OF assms] obtain c t where
    r: "r = c # t" and c: "isDigit c \<or> c = CHR ''.''" by blast
  from c have w: "\<not> isWhiteSpace c"
    by (auto simp: isDigit_def isWhiteSpace_def)
  from c have s: "c \<noteq> CHR ''-'' \<and> c \<noteq> CHR ''+''"
    by (auto simp: isDigit_def)
  show ?thesis using r w s by (simp add: trimStart_def splitSign_def)
qed

lemma unsignedFloat_not_Infinity:
  assumes "unsignedFloat r"
  shows "take 8 r \<noteq> ''Infinity''"
proof -
  from unsignedFloat_start [OF assms] obtain c t where
    r: "r = c # t" and c: "isDigit c \<or> c = CHR ''.''" by blast
  from c have "c \<noteq> CHR ''I''" by (auto simp: isDigit_def)
  with r show ?thesis by (simp add: take_Cons')
qed

lemma validFloat_splitSign:
  assumes "validFloat s"
  shows "\<exists>neg r. splitSign (trimStart s) = (neg, r) \<and> unsignedFloat r"
proof (cases s)
  case Nil
  with assms have "unsignedFloat []" by (simp add: validFloat_def)
  then show ?thesis using unsignedFloat_start by blast
next
  case (Cons c t)
  show ?thesis
  proof (cases "c = CHR ''-''")
    case True
    with Cons assms have u: "unsignedFloat t" by (simp add: validFloat_def)
    from True Cons have "splitSign (trimStart s) = (True, t)"
      by (simp add: trimStart_def splitSign_def isWhiteSpace_def)
    with u show ?thesis by blast
  next
    case False
    with Cons assms have u: "unsignedFloat s" by (simp add: validFloat_def)
    from unsignedFloat_splitSign [OF u] u show ?thesis by blast
  qed
qed

lemma validFloat_parseFloat:
  assumes "validFloat s"
  shows "\<exists>v. parseFloat s = Fin v"
proof -
  from validFloat_splitSign [OF assms] obtain neg r where
    sp: "splitSign (trimStart s) = (neg, r)" and u: "unsignedFloat r" by blast
  obtain fp r2 where
    f: "(case dropWhile isDigit r of
            c # r' \<Rightarrow> if c = CHR ''.''
                      then (takeWhile isDigit r', dropWhile isDigit r')
                      else ([], dropWhile isDigit r)
          | [] \<Rightarrow> ([], dropWhile isDigit r)) = (fp, r2)"
    by (cases "(case dropWhile isDigit r of
            c # r' \<Rightarrow> if c = CHR ''.''
                      then (takeWhile isDigit r', dropWhile isDigit r')
                      else ([], dropWhile isDigit r)
          | [] \<Rightarrow> ([], dropWhile isDigit r))") blast
  from unsignedFloat_digits [OF u f] have d: "\<not> (takeWhile isDigit r = [] \<and> fp = [])" .
  from unsignedFloat_not_Infinity [OF u] have i: "take 8 r \<noteq> ''Infinity''" .
  show ?thesis
    unfolding parseFloat_def sp Let_def prod.case f
    using d i by auto
qed


text \<open>
  A row that the form accepts resolves and has a numeric quantity, so the handler, run on
  a form that was submitted, builds every row and does not throw.
\<close>

lemma rowValid_resolves:
  assumes "rowValid avail row"
  shows "find (\<lambda>i. ing_id i = ingredientId row) avail \<noteq> None"
proof -
  from assms have "ingredientId row \<in> set (map ing_id avail)"
    by (auto simp: rowValid_def selectValue_def split: if_splits)
  then show ?thesis by (auto simp: find_None_iff)
qed

lemma rowValid_usable: "rowValid avail row \<Longrightarrow> usable avail row"
proof -
  assume r: "rowValid avail row"
  then have "validFloat (quantityUsed row)" by (simp add: rowValid_def)
  then obtain v where "parseFloat (quantityUsed row) = Fin v"
    using validFloat_parseFloat by blast
  with rowValid_resolves [OF r] show ?thesis by (simp add: usable_def isNaN_def)
qed

lemma formValid_usable:
  "formValid st \<Longrightarrow> \<forall>item \<in> set (ingredientsList st). usable (availableIngredients st) item"
  by (auto simp: formValid_def list_all_iff rowValid_usable)

lemma formValid_resolves:
  "formValid st \<Longrightarrow> \<forall>item \<in> set (ingredientsList st).
     find (\<lambda>i. ing_id i = ingredientId item) (availableIngredients st) \<noteq> None"
  by (auto simp: formValid_def list_all_iff dest: rowValid_resolves)

lemma formValid_no_throw: "formValid st \<Longrightarrow> Recipes_handleSubmit st \<noteq> Inl TypeError"
proof -
  assume v: "formValid st"
  then obtain rows where
    "finalIngredients (availableIngredients st) (ingredientsList st) = Inr rows"
    using finalIngredients_Inr_iff [of "availableIngredients st" "ingredientsList st"]
      formValid_resolves by blast
  then show ?thesis by (simp add: Recipes_handleSubmit_def Let_def)
qed

lemma finalIngredients_ids:
  "finalIngredients avail items = Inr rows \<Longrightarrow> map row_ingredientId rows = map ingredientId items"
  by (induction items arbitrary: rows) (auto split: option.splits sum.splits simp: Let_def)

lemma formValid_cake_form: "formValid cake_form"
  by (simp add: formValid_def cake_form_def rowValid_def selectValue_def flour_def egg_def
      validFloat_200 validFloat_1000)

section \<open>Saving a recipe with a stale usage\<close>

text \<open>
  The rows cannot be built as soon as one usage does not resolve: the handler run on such
  a state, past its own validation, would throw.
\<close>

lemma unresolved_usage_throws:
  assumes "item \<in> set items" and "find (\<lambda>i. ing_id i = ingredientId item) avail = None"
  shows "finalIngredients avail items = Inl TypeError"
proof -
  have "\<not> (\<exists>rows. finalIngredients avail items = Inr rows)"
    using assms by (auto simp: finalIngredients_Inr_iff)
  then obtain e where "finalIngredients avail items = Inl e"
    by (cases "finalIngredients avail items") auto
  then show ?thesis by (simp add: finalIngredients_error)
qed

text \<open>The alert is raised on exactly the test the handler writes.\<close>

lemma rejected_iff:
  "Recipes_handleSubmit st = Inl ValidationAlert
   \<longleftrightarrow> (recipeName st = [] \<or> ingredientsList st = []
        \<or> isNaN (parseFloat (totalYield st)) \<or> js_le (parseFloat (totalYield st)) (Fin 0))"
proof -
  have "finalIngredients avail items \<noteq> Inl ValidationAlert" for avail items
    using finalIngredients_error [of avail items ValidationAlert] by auto
  then show ?thesis
    by (auto simp: Recipes_handleSubmit_def Let_def split: sum.splits)
qed

lemma unresolved_usage_save_throws:
  assumes "Recipes_handleSubmit st \<noteq> Inl ValidationAlert"
    and "item \<in> set (ingredientsList st)"
    and "find (\<lambda>i. ing_id i = ingredientId item) (availableIngredients st) = None"
  shows "Recipes_handleSubmit st = Inl TypeError"
proof -
  from assms(1) have "\<not> (recipeName st = [] \<or> ingredientsList st = []
        \<or> isNaN (parseFloat (totalYield st)) \<or> js_le (parseFloat (totalYield st)) (Fin 0))"
    using rejected_iff [of st] by blast
  moreover have "finalIngredients (availableIngredients st) (ingredientsList st) = Inl TypeError"
    using assms(2,3) by (rule unresolved_usage_throws)
  ultimately show ?thesis
    by (simp add: Recipes_handleSubmit_def Let_def)
qed

text \<open>
  Claim C6 says that a save whose usage list names a deleted ingredient does not throw,
  counts 0 for that usage and still stores a row for it. On scenario E nothing is stored:
  the \<open>select\<close> of the stale row has no option for the id and shows the placeholder,
  so the form is not submitted.
\<close>

theorem stale_form_not_submitted:
  "''deleted'' \<in> set (map ingredientId (ingredientsList stale_form))
   \<and> ''deleted'' \<notin> set (map ing_id (availableIngredients stale_form))
   \<and> Recipes_submit stale_form = None"
  by (simp add: Recipes_submit_def formValid_def stale_form_def cake_form_def rowValid_def
      selectValue_def flour_def egg_def)

text \<open>
  Claim C6, amended. A recipe form whose usage list names an ingredient id that resolves
  to no available ingredient is not submitted: the save-time computation does not run,
  nothing is thrown and nothing is stored. No submitted save throws, and every save that
  reaches the store has all its usages resolved and stores one row for each listed usage,
  in order.
\<close>

theorem unresolved_usage_not_submitted:
  "((\<exists>item \<in> set (ingredientsList st).
       find (\<lambda>i. ing_id i = ingredientId item) (availableIngredients st) = None)
      \<longrightarrow> Recipes_submit st = None)
   \<and> Recipes_submit st \<noteq> Some (Inl TypeError)
   \<and> (Recipes_submit st = Some (Inr op)
      \<longrightarrow> (\<forall>item \<in> set (ingredientsList st).
             find (\<lambda>i. ing_id i = ingredientId item) (availableIngredients st) \<noteq> None)
          \<and> map row_ingredientId (ingredients (payload op))
              = map ingredientId (ingredientsList st))"
proof -
  have a: "Recipes_submit st = None"
    if "\<exists>item \<in> set (ingredientsList st).
       find (\<lambda>i. ing_id i = ingredientId item) (availableIngredients st) = None"
  proof -
    from that have "\<not> formValid st" using formValid_resolves [of st] by blast
    then show ?thesis by (simp add: Recipes_submit_def)
  qed
  have b: "Recipes_submit st \<noteq> Some (Inl TypeError)"
    using formValid_no_throw [of st] by (simp add: Recipes_submit_def)
  have c: "(\<forall>item \<in> set (ingredientsList st).
             find (\<lambda>i. ing_id i = ingredientId item) (availableIngredients st) \<noteq> None)
          \<and> map row_ingredientId (ingredients (payload op))
              = map ingredientId (ingredientsList st)"
    if s: "Recipes_submit st = Some (Inr op)"
  proof -
    from s have v: "formValid st" and h: "Recipes_handleSubmit st = Inr op"
      by (auto simp: Recipes_submit_def split: if_splits)
    from Recipes_handleSubmit_Inr [OF h] obtain rows where
      f: "finalIngredients (availableIngredients st) (ingredientsList st) = Inr rows"
      and i: "ingredients (payload op) = rows"
      by auto
    from finalIngredients_ids [OF f] i formValid_resolves [OF v] show ?thesis by simp
  qed
  show ?thesis using a b c by blast
qed

theorem unresolved_usage_not_submitted_witness:
  "Recipes_submit stale_form = None
   \<and> (\<exists>op. Recipes_submit cake_form = Some (Inr op)
         \<and> map row_ingredientId (ingredients (payload op)) = [''flour'', ''flour''])"
proof -
  have e: "\<exists>item \<in> set (ingredientsList stale_form).
       find (\<lambda>i. ing_id i = ingredientId item) (availableIngredients stale_form) = None"
    by (simp add: stale_form_def cake_form_def flour_def egg_def)
  have 1: "Recipes_submit stale_form = None"
    using unresolved_usage_not_submitted [where st = stale_form] e by blast
  have "Recipes_handleSubmit cake_form \<noteq> Inl ValidationAlert"
    by (simp add: rejected_iff cake_form_def parseFloat_1000 isNaN_def)
  moreover have "Recipes_handleSubmit cake_form \<noteq> Inl TypeError"
    using formValid_cake_form by (rule formValid_no_throw)
  ultimately obtain op where "Recipes_handleSubmit cake_form = Inr op"
    by (cases "Recipes_handleSubmit cake_form") (auto intro: submit_error.exhaust)
  then have s: "Recipes_submit cake_form = Some (Inr op)"
    by (simp add: Recipes_submit_def formValid_cake_form)
  have "map ingredientId (ingredientsList cake_form) = [''flour'', ''flour'']"
    by (simp add: cake_form_def)
  with unresolved_usage_not_submitted [of cake_form op] s
  have m: "map row_ingredientId (ingredients (payload op)) = [''flour'', ''flour'']"
    by simp
  from s m have "\<exists>op. Recipes_submit cake_form = Some (Inr op)
         \<and> map row_ingredientId (ingredients (payload op)) = [''flour'', ''flour'']"
    by (intro exI conjI)
  with 1 show ?thesis by (rule conjI)
qed

section \<open>The validation of a recipe save\<close>



section \<open>The stored totals\<close>

text \<open>
  When every usage resolves and parses, the stored rows carry the usage costs, and the
  stored total is their sum.
\<close>

lemma finalIngredients_costs:
  "finalIngredients avail items = Inr rows \<Longrightarrow> \<forall>item \<in> set items. usable avail item
   \<Longrightarrow> map calculatedCost rows = map (spec_contribution avail) items"
  by (induction items arbitrary: rows)
     (auto split: option.splits sum.splits
           simp: Let_def usable_def spec_contribution_def spec_usageCost_def)

lemma saved_total_is_sum_of_rows:
  assumes "Recipes_handleSubmit st = Inr op"
    and "\<forall>item \<in> set (ingredientsList st). usable (availableIngredients st) item"
  shows "totalCost (payload op) = jssum (map calculatedCost (ingredients (payload op)))"
proof -
  from Recipes_handleSubmit_Inr [OF assms(1)] obtain rows where
    f: "finalIngredients (availableIngredients st) (ingredientsList st) = Inr rows"
    and t: "totalCost (payload op) = calculateTotalCost (availableIngredients st) (ingredientsList st)"
    and i: "ingredients (payload op) = rows"
    by auto
  from finalIngredients_costs [OF f assms(2)] show ?thesis
    by (simp add: t i calculateTotalCost_sum)
qed

text \<open>
  Claim C8. Every recipe that is saved has \<open>totalCost\<close> equal to the sum of the
  \<open>calculatedCost\<close> of its stored rows and \<open>costPerGram\<close> equal to \<open>totalCost\<close>
  divided by \<open>totalYieldWeight\<close>. A usage list with a row that does not resolve or
  whose quantity is not a number is never saved: the form is not submitted.
\<close>

theorem saved_totals:
  "(Recipes_submit st = Some (Inr op)
      \<longrightarrow> totalCost (payload op) = jssum (map calculatedCost (ingredients (payload op)))
          \<and> costPerGram (payload op)
              = jsdiv (totalCost (payload op)) (totalYieldWeight (payload op)))
   \<and> ((\<exists>item \<in> set (ingredientsList st). \<not> usable (availableIngredients st) item)
      \<longrightarrow> Recipes_submit st = None)"
proof -
  have a: "totalCost (payload op) = jssum (map calculatedCost (ingredients (payload op)))
          \<and> costPerGram (payload op)
              = jsdiv (totalCost (payload op)) (totalYieldWeight (payload op))"
    if s: "Recipes_submit st = Some (Inr op)"
  proof -
    from s have v: "formValid st" and h: "Recipes_handleSubmit st = Inr op"
      by (auto simp: Recipes_submit_def split: if_splits)
    have t: "totalCost (payload op) = jssum (map calculatedCost (ingredients (payload op)))"
      using h formValid_usable [OF v] by (rule saved_total_is_sum_of_rows)
    from Recipes_handleSubmit_Inr [OF h]
    have "costPerGram (payload op) = jsdiv (totalCost (payload op)) (totalYieldWeight (payload op))"
      by auto
    with t show ?thesis by simp
  qed
  have b: "Recipes_submit st = None"
    if "\<exists>item \<in> set (ingredientsList st). \<not> usable (availableIngredients st) item"
  proof -
    from that have "\<not> formValid st" using formValid_usable [of st] by blast
    then show ?thesis by (simp add: Recipes_submit_def)
  qed
  show ?thesis using a b by blast
qed

theorem saved_totals_witness:
  "(\<exists>op. Recipes_submit cake_form = Some (Inr op)
        \<and> totalCost (payload op) = jssum (map calculatedCost (ingredients (payload op)))
        \<and> costPerGram (payload op) = jsdiv (totalCost (payload op)) (totalYieldWeight (payload op)))
   \<and> Recipes_submit blank_quantity_form = None"
proof -
  have "Recipes_handleSubmit cake_form \<noteq> Inl ValidationAlert"
    by (simp add: rejected_iff cake_form_def parseFloat_1000 isNaN_def)
  moreover have "Recipes_handleSubmit cake_form \<noteq> Inl TypeError"
    using formValid_cake_form by (rule formValid_no_throw)
  ultimately obtain op where "Recipes_handleSubmit cake_form = Inr op"
    by (cases "Recipes_handleSubmit cake_form") (auto intro: submit_error.exhaust)
  then have s: "Recipes_submit cake_form = Some (Inr op)"
    by (simp add: Recipes_submit_def formValid_cake_form)
  have 1: "totalCost (payload op) = jssum (map calculatedCost (ingredients (payload op)))
        \<and> costPerGram (payload op) = jsdiv (totalCost (payload op)) (totalYieldWeight (payload op))"
    using saved_totals [of cake_form op] s by blast
  have "\<not> usable (availableIngredients blank_quantity_form) \<lparr>ingredientId = ''egg'', quantityUsed = []\<rparr>"
    by (simp add: usable_def parseFloat_empty isNaN_def)
  then have "\<exists>item \<in> set (ingredientsList blank_quantity_form).
      \<not> usable (availableIngredients blank_quantity_form) item"
    by (simp add: blank_quantity_form_def)
  then have 2: "Recipes_submit blank_quantity_form = None"
    using saved_totals [where st = blank_quantity_form] by blast
  show ?thesis using s 1 2 by blast
qed

section \<open>Saving an ingredient\<close>

text \<open>What a save of the ingredient form has checked and what it writes.\<close>

lemma Ingredients_handleSubmit_Inr:
  assumes "Ingredients_handleSubmit st = Inr op"
  shows "payload op = \<lparr>data_name = trim (form_name st), data_unit = form_unit st,
                         data_pricePerUnit = parseFloat (form_price st),
                         data_userId = form_userId st\<rparr>
         \<and> trim (form_name st) \<noteq> [] \<and> form_price st \<noteq> []"
  using assms
  by (auto simp: Ingredients_handleSubmit_def Let_def payload_writeDoc split: if_splits)

text \<open>Evaluations of \<open>trim\<close> and \<open>toLowerCase\<close> on the scenarios' inputs.\<close>

lemma trim_stevia: "trim ''  Stevia '' = ''Stevia''" by code_simp
lemma trim_HUEVO: "trim '' HUEVO  '' = ''HUEVO''" by code_simp
lemma lower_HUEVO: "toLowerCase ''HUEVO'' = ''huevo''" by code_simp
lemma lower_Huevo: "toLowerCase ''Huevo'' = ''huevo''" by code_simp
lemma lower_Stevia: "toLowerCase ''Stevia'' = ''stevia''" by code_simp
lemma lower_Harina: "toLowerCase ''Harina de Almendras'' = ''harina de almendras''" by code_simp

text \<open>
  Claim C9 as stated: every persisted ingredient has a price that is at least 0. The form
  checks that the price string is not empty and nothing else: the price \<open>-5\<close> is
  stored as it is.
\<close>

theorem negative_price_accepted:
  "Ingredients_handleSubmit negative_price_form
     = Inr (AddDoc ''ingredients''
         \<lparr>data_name = ''Stevia'', data_unit = Unit_GR, data_pricePerUnit = Fin (- 5),
          data_userId = ''u1''\<rparr>)
   \<and> \<not> js_le (Fin 0)
         (data_pricePerUnit (payload (AddDoc ''ingredients''
            \<lparr>data_name = ''Stevia'', data_unit = Unit_GR, data_pricePerUnit = Fin (- 5),
             data_userId = ''u1''\<rparr>)))"
  by (simp add: Ingredients_handleSubmit_def negative_price_form_def stevia_form_def flour_def
      egg_def trim_stevia lower_Stevia lower_Huevo lower_Harina parseFloat_minus_5 Let_def)

text \<open>
  Claim C9, amended. Every ingredient record that the add/edit operation writes comes from
  a price string that is not empty and has \<open>pricePerUnit\<close> equal to \<open>parseFloat\<close>
  of that string; it is at least 0 exactly when the string parses to a number that is at
  least 0.
\<close>

theorem persisted_price_is_parsed:
  assumes "Ingredients_handleSubmit st = Inr op"
  shows "form_price st \<noteq> []
         \<and> data_pricePerUnit (payload op) = parseFloat (form_price st)
         \<and> (js_le (Fin 0) (data_pricePerUnit (payload op))
              \<longleftrightarrow> js_le (Fin 0) (parseFloat (form_price st)))"
  using Ingredients_handleSubmit_Inr [OF assms] by simp

theorem persisted_price_is_parsed_witness:
  "\<exists>op. Ingredients_handleSubmit stevia_form = Inr op
        \<and> data_pricePerUnit (payload op) = Fin (25 / 2)
        \<and> js_le (Fin 0) (data_pricePerUnit (payload op))"
proof -
  have "Ingredients_handleSubmit stevia_form
     = Inr (AddDoc ''ingredients''
         \<lparr>data_name = ''Stevia'', data_unit = Unit_GR, data_pricePerUnit = Fin (25 / 2),
          data_userId = ''u1''\<rparr>)"
    by (simp add: Ingredients_handleSubmit_def stevia_form_def flour_def
      egg_def trim_stevia lower_Stevia lower_Huevo lower_Harina parseFloat_12_5 Let_def)
  then obtain op where h: "Ingredients_handleSubmit stevia_form = Inr op" ..
  have p: "parseFloat (form_price stevia_form) = Fin (25 / 2)"
    by (simp add: stevia_form_def parseFloat_12_5)
  from persisted_price_is_parsed [OF h] p
  have "data_pricePerUnit (payload op) = Fin (25 / 2)
        \<and> js_le (Fin 0) (data_pricePerUnit (payload op))"
    by simp
  with h show ?thesis by blast
qed

text \<open>
  Claim C10. The name that is stored is the trimmed input and is not empty; an input that
  is empty after trimming, such as one of white space only, is rejected with no write; the
  duplicate check compares the lower-cased trimmed input with the lower-cased names of the
  other ingredients. The trimmed input is the input without a prefix and a suffix of white
  space, and neither starts nor ends with white space.
\<close>

theorem name_trimmed:
  "(Ingredients_handleSubmit st = Inr op
      \<longrightarrow> data_name (payload op) = trim (form_name st) \<and> data_name (payload op) \<noteq> [])
   \<and> (trim (form_name st) = [] \<longrightarrow> Ingredients_handleSubmit st = Inl MissingField)
   \<and> ((\<forall>c \<in> set (form_name st). isWhiteSpace c)
      \<longrightarrow> Ingredients_handleSubmit st = Inl MissingField)
   \<and> (trim (form_name st) \<noteq> [] \<and> form_price st \<noteq> []
      \<longrightarrow> (Ingredients_handleSubmit st = Inl DuplicateName
           \<longleftrightarrow> (\<exists>ing \<in> set (form_ingredients st).
                  toLowerCase (ing_name ing) = toLowerCase (trim (form_name st))
                  \<and> Some (ing_id ing) \<noteq> form_editingId st)))
   \<and> (\<exists>pre post. form_name st = pre @ trim (form_name st) @ post
         \<and> (\<forall>c \<in> set pre. isWhiteSpace c) \<and> (\<forall>c \<in> set post. isWhiteSpace c))
   \<and> (trim (form_name st) \<noteq> []
      \<longrightarrow> \<not> isWhiteSpace (hd (trim (form_name st)))
          \<and> \<not> isWhiteSpace (last (trim (form_name st))))"
proof -
  have a: "data_name (payload op) = trim (form_name st) \<and> data_name (payload op) \<noteq> []"
    if "Ingredients_handleSubmit st = Inr op"
    using Ingredients_handleSubmit_Inr [OF that] by simp
  have b: "Ingredients_handleSubmit st = Inl MissingField" if "trim (form_name st) = []"
    using that by (simp add: Ingredients_handleSubmit_def)
  have c: "Ingredients_handleSubmit st = Inl MissingField"
    if "\<forall>c \<in> set (form_name st). isWhiteSpace c"
    using that b by (simp add: trim_all_space)
  have d: "Ingredients_handleSubmit st = Inl DuplicateName
           \<longleftrightarrow> (\<exists>ing \<in> set (form_ingredients st).
                  toLowerCase (ing_name ing) = toLowerCase (trim (form_name st))
                  \<and> Some (ing_id ing) \<noteq> form_editingId st)"
    if "trim (form_name st) \<noteq> [] \<and> form_price st \<noteq> []"
    using that by (simp add: Ingredients_handleSubmit_def Let_def list_ex_iff)
  show ?thesis
    using a b c d trim_decomposition [of "form_name st"] trim_no_outer_space [of "form_name st"]
    by blast
qed

theorem name_trimmed_witness:
  "(\<exists>op. Ingredients_handleSubmit stevia_form = Inr op \<and> data_name (payload op) = ''Stevia'')
   \<and> Ingredients_handleSubmit blank_name_form = Inl MissingField
   \<and> Ingredients_handleSubmit duplicate_name_form = Inl DuplicateName"
proof -
  have "Ingredients_handleSubmit stevia_form
     = Inr (AddDoc ''ingredients''
         \<lparr>data_name = ''Stevia'', data_unit = Unit_GR, data_pricePerUnit = Fin (25 / 2),
          data_userId = ''u1''\<rparr>)"
    by (simp add: Ingredients_handleSubmit_def stevia_form_def flour_def
      egg_def trim_stevia lower_Stevia lower_Huevo lower_Harina parseFloat_12_5 Let_def)
  then obtain op where h: "Ingredients_handleSubmit stevia_form = Inr op" ..
  have t: "trim (form_name stevia_form) = ''Stevia''"
    by (simp add: stevia_form_def trim_stevia)
  have 1: "data_name (payload op) = ''Stevia''"
    using name_trimmed [of stevia_form op] h t by simp
  have w: "\<forall>c \<in> set (form_name blank_name_form). isWhiteSpace c"
    by (simp add: blank_name_form_def stevia_form_def isWhiteSpace_def)
  have 2: "Ingredients_handleSubmit blank_name_form = Inl MissingField"
    using name_trimmed [where st = blank_name_form] w by blast
  have n: "trim (form_name duplicate_name_form) \<noteq> [] \<and> form_price duplicate_name_form \<noteq> []"
    by (simp add: duplicate_name_form_def stevia_form_def trim_HUEVO)
  have e: "\<exists>ing \<in> set (form_ingredients duplicate_name_form).
                  toLowerCase (ing_name ing) = toLowerCase (trim (form_name duplicate_name_form))
                  \<and> Some (ing_id ing) \<noteq> form_editingId duplicate_name_form"
    by (simp add: duplicate_name_form_def stevia_form_def trim_HUEVO egg_def lower_HUEVO lower_Huevo)
  have 3: "Ingredients_handleSubmit duplicate_name_form = Inl DuplicateName"
    using name_trimmed [where st = duplicate_name_form] n e by blast
  show ?thesis using h 1 2 3 by blast
qed

end
